theory Spec2Isabelle
  imports Main "HOL-Library.Sublist"
begin

section \<open>JavaScript values, errors and string primitives\<close>

text \<open>
  The build scripts are dynamically typed: \<open>buildRunnable\<close> checks the run-time type of
  its arguments with \<open>typeof\<close>. The arguments are therefore modelled as JavaScript values.
  Numbers are restricted to the integers of magnitude below \<open>2^53\<close>, which a double
  represents exactly and prints in plain decimal notation (only \<open>typeof\<close>, truthiness and
  the conversion to a string are ever applied to them). Strings are lists of characters; the
  only character-level operations of the sources are \<open>replace\<close>, \<open>split\<close>, \<open>join\<close>,
  \<open>indexOf\<close> and \<open>substring\<close> on ASCII separators.
\<close>

datatype js_value =
    JSUndefined
  | JSNull
  | JSBool bool
  | JSNumber int
  | JSString string

fun typeof :: "js_value \<Rightarrow> string" where
  "typeof JSUndefined = ''undefined''"
| "typeof JSNull = ''object''"
| "typeof (JSBool b) = ''boolean''"
| "typeof (JSNumber n) = ''number''"
| "typeof (JSString s) = ''string''"

fun truthy :: "js_value \<Rightarrow> bool" where
  "truthy JSUndefined = False"
| "truthy JSNull = False"
| "truthy (JSBool b) = b"
| "truthy (JSNumber n) = (n \<noteq> 0)"
| "truthy (JSString s) = (s \<noteq> [])"

definition digit_char :: "nat \<Rightarrow> char" where
  "digit_char d = char_of (48 + d)"

function string_of_nat :: "nat \<Rightarrow> string" where
  "string_of_nat n =
     (if n < 10 then [digit_char n] else string_of_nat (n div 10) @ [digit_char (n mod 10)])"
  by pat_completeness auto
termination
  by (relation "measure id") auto

declare string_of_nat.simps [simp del]

definition string_of_int :: "int \<Rightarrow> string" where
  "string_of_int i = (if i < 0 then CHR ''-'' # string_of_nat (nat (- i)) else string_of_nat (nat i))"

text \<open>
  String conversion as applied by \<open>+\<close> and by template literals. On numbers it is the
  decimal notation, which is what JavaScript prints below \<open>10^21\<close>; larger numbers, printed
  in exponent form by JavaScript, are outside the numbers modelled here.
\<close>

fun js_to_string :: "js_value \<Rightarrow> string" where
  "js_to_string JSUndefined = ''undefined''"
| "js_to_string JSNull = ''null''"
| "js_to_string (JSBool b) = (if b then ''true'' else ''false'')"
| "js_to_string (JSNumber n) = string_of_int n"
| "js_to_string (JSString s) = s"

text \<open>
  Exceptions of the sources: a failed \<open>assert\<close> (with its optional message), a
  \<open>TypeError\<close> of the language (property access on \<open>undefined\<close>, call of a missing method),
  the \<open>Error\<close> thrown by \<open>minify\<close>, and a failure reported by Babel.
\<close>

datatype error =
    AssertionError "string option"
  | TypeError
  | Error string
  | BabelError string

text \<open>
  \<open>String.prototype.replace\<close> with a string pattern: only the first occurrence of the
  pattern is replaced (an empty pattern matches at the start).
\<close>

fun js_replace :: "string \<Rightarrow> string \<Rightarrow> string \<Rightarrow> string" where
  "js_replace pat rep [] = (if pat = [] then rep else [])"
| "js_replace pat rep (x # xs) =
     (if prefix pat (x # xs) then rep @ drop (length pat) (x # xs)
      else x # js_replace pat rep xs)"

text \<open>\<open>String.prototype.split\<close> with a one-character separator.\<close>

fun js_split :: "char \<Rightarrow> string \<Rightarrow> string list" where
  "js_split c [] = [[]]"
| "js_split c (x # xs) =
     (if x = c then [] # js_split c xs
      else (case js_split c xs of [] \<Rightarrow> [[x]] | y # ys \<Rightarrow> (x # y) # ys))"

text \<open>\<open>Array.prototype.join\<close> on an array of strings.\<close>

fun js_join :: "string \<Rightarrow> string list \<Rightarrow> string" where
  "js_join sep [] = []"
| "js_join sep [x] = x"
| "js_join sep (x # y # ys) = x @ sep @ js_join sep (y # ys)"

text \<open>\<open>String.prototype.indexOf\<close> with a one-character needle: \<open>-1\<close> when absent.\<close>

fun js_indexOf :: "char \<Rightarrow> string \<Rightarrow> int" where
  "js_indexOf c [] = - 1"
| "js_indexOf c (x # xs) =
     (if x = c then 0 else (let i = js_indexOf c xs in if i < 0 then - 1 else i + 1))"

text \<open>
  \<open>String.prototype.substring\<close>: both indices are clamped to the string and swapped when
  the first exceeds the second.
\<close>

definition js_substring :: "string \<Rightarrow> int \<Rightarrow> int \<Rightarrow> string" where
  "js_substring s a b =
     (let n = int (length s);
          a' = max 0 (min a n);
          b' = max 0 (min b n);
          lo = min a' b';
          hi = max a' b'
      in take (nat (hi - lo)) (drop (nat lo) s))"

section \<open>transpile.js\<close>

text \<open>
  Babel is an external library. Its \<open>transform\<close> is taken as a parameter of the model; it
  either throws or returns an object whose \<open>code\<close> property is read.
\<close>

record babel_options =
  compact :: bool
  presets :: "(string \<times> string list) list"

definition transpile_options :: babel_options where
  "transpile_options =
     \<lparr> compact = True,
       presets = [(''../chipper/node_modules/babel-preset-env'',
                   [''> 0.5%'', ''safari 9-11'', ''Firefox ESR'', ''IE 11'', ''ios_saf 11''])] \<rparr>"

type_synonym babel = "string \<Rightarrow> babel_options \<Rightarrow> error + string"

definition transpile :: "babel \<Rightarrow> string \<Rightarrow> error + string" where
  "transpile babel_transform jsInput = babel_transform jsInput transpile_options"

section \<open>minify.js\<close>

text \<open>The options object of \<open>minify\<close>; \<open>None\<close> is a property that the caller left out.\<close>

record minify_options =
  mangle :: "bool option"
  babelTranspile :: "bool option"
  stripAssertions :: "bool option"
  stripLogging :: "bool option"

definition no_options :: minify_options where
  "no_options = \<lparr> mangle = None, babelTranspile = None, stripAssertions = None, stripLogging = None \<rparr>"

text \<open>The configuration handed to \<open>uglify.minify\<close>.\<close>

datatype mangle_config = MangleOff | MangleSafari10 bool

record uglify_config =
  config_mangle :: mangle_config
  dead_code :: bool
  global_defs :: "(string \<times> bool) list"
  inline_script :: bool
  beautify :: bool

text \<open>
  The result object of \<open>uglify.minify\<close>: its \<open>error\<close> property is absent on success and
  an error object (here: its detail) otherwise.
\<close>

record uglify_result =
  result_error :: "string option"
  result_code :: string

type_synonym uglify = "string \<Rightarrow> uglify_config \<Rightarrow> uglify_result"

definition vertical_tab :: char where
  "vertical_tab = CHR 0x0B"

definition escaped_vertical_tab :: string where
  "escaped_vertical_tab = CHR 0x5C # ''x0B''"

definition default_to :: "bool \<Rightarrow> bool option \<Rightarrow> bool" where
  "default_to d v = (case v of None \<Rightarrow> d | Some b \<Rightarrow> b)"

definition minify_config :: "minify_options \<Rightarrow> uglify_config" where
  "minify_config options =
     (let mangle' = default_to True (mangle options);
          stripAssertions' = default_to True (stripAssertions options);
          stripLogging' = default_to True (stripLogging options)
      in \<lparr> config_mangle = (if mangle' then MangleSafari10 True else MangleOff),
           dead_code = True,
           global_defs =
             (if stripAssertions' then [(''assert'', False), (''assertSlow'', False)] else []) @
             (if stripLogging' then [(''sceneryLog'', False), (''sceneryAccessibilityLog'', False)] else []),
           inline_script = True,
           beautify = (\<not> mangle') \<rparr>)"

definition minify :: "babel \<Rightarrow> uglify \<Rightarrow> string \<Rightarrow> minify_options \<Rightarrow> error + string" where
  "minify babel_transform uglify_minify js options =
     (case (if default_to False (babelTranspile options)
            then transpile babel_transform js else Inr js) of
        Inl e \<Rightarrow> Inl e
      | Inr js' \<Rightarrow>
          (let result = uglify_minify js' (minify_config options)
           in case result_error result of
                Some detail \<Rightarrow> Inl (Error detail)
              | None \<Rightarrow> Inr (js_replace [vertical_tab] escaped_vertical_tab (result_code result))))"

section \<open>The environment of buildRunnable.js\<close>

text \<open>
  \<open>buildRunnable\<close> reads constants of \<open>ChipperConstants\<close>, the file system and the clock
  through \<open>grunt\<close>, and calls collaborators of the repository whose sources are not part
  of the three files at hand. All of them are parameters of the model, collected in the
  record \<open>world\<close>. The collaborators are taken to return; of their effects only the writes
  to the file system are recorded (\<open>packageXHTML\<close> and \<open>copySupplementalPhetioFiles\<close>).
  Console output (\<open>grunt.log\<close>, \<open>console.log\<close>, the unused-media and unused-strings
  reports) writes no file and is left out.
\<close>

datatype json = JString string | JObject "(string \<times> json) list"

record phet_section =
  requirejsNamespace :: string
  accessible :: bool

record package_object =
  pkg_version :: string
  pkg_phet :: phet_section

type_synonym string_map = "string \<Rightarrow> (string \<Rightarrow> string option) option"

record require_options =
  rb_insertRequire :: string
  rb_instrument :: js_value
  rb_brand :: string

record initialization_options =
  io_locale :: string
  io_includeAllLocales :: bool
  io_isDebugBuild :: bool
  io_brand :: string
  io_repo :: string
  io_stringMap :: string_map
  io_dependencies :: json
  io_timestamp :: string
  io_version :: string
  io_thirdPartyEntries :: json

record runnable_args =
  pr_repo :: string
  pr_stringMap :: string_map
  pr_htmlHeader :: string
  pr_locale :: string
  pr_scripts :: "string list"

record xhtml_args =
  px_repo :: string
  px_brand :: string
  px_stringMap :: string_map
  px_htmlHeader :: string
  px_scripts :: "string list"

record world =
  BRANDS :: "string list"
  FALLBACK_LOCALE :: string
  A11Y_VIEW_HTML_SUFFIX :: string
  file_exists :: "string \<Rightarrow> bool"
  file_read :: "string \<Rightarrow> string"
  file_readJSON :: "string \<Rightarrow> package_object"
  Date_toISOString :: string
  template_today :: "string \<Rightarrow> string"
  requireBuild :: "string \<Rightarrow> string \<Rightarrow> require_options \<Rightarrow> string"
  babel_transform :: babel
  uglify_minify :: uglify
  getPreloads :: "string \<Rightarrow> string \<Rightarrow> string list"
  getPhetLibs :: "string \<Rightarrow> string \<Rightarrow> string list"
  getLocalesFromRepository :: "string \<Rightarrow> string list"
  getDependencies :: "string \<Rightarrow> json"
  getAllThirdPartyEntries :: "string \<Rightarrow> string \<Rightarrow> json"
  getStringMap :: "string list \<Rightarrow> string list \<Rightarrow> string_map"
  buildMipmaps :: string
  getTitleStringKey :: "string \<Rightarrow> string"
  loadFileAsDataURI :: "string \<Rightarrow> string"
  getInitializationScript :: "initialization_options \<Rightarrow> string"
  packageRunnable :: "runnable_args \<Rightarrow> string"
  JSON_stringify :: "json \<Rightarrow> string"
  htmlEncode :: "string \<Rightarrow> string"
  replaceFirst :: "string \<Rightarrow> string \<Rightarrow> string \<Rightarrow> string"
  replaceAll :: "string \<Rightarrow> string \<Rightarrow> string \<Rightarrow> string"
  getA11yViewHTMLFromTemplate :: "string \<Rightarrow> string"
  generateThumbnails :: "string \<Rightarrow> nat \<Rightarrow> nat \<Rightarrow> string"
  generateTwitterCard :: "string \<Rightarrow> string"

text \<open>The effects of a build on the file system, in the order in which they happen.\<close>

datatype fs_action =
    Mkdir string
  | Write string string
  | PackageXHTML string xhtml_args
  | CopySupplementalPhetioFiles string string

section \<open>buildRunnable.js\<close>

subsection \<open>The values derived before the first write\<close>

definition nl :: string where
  "nl = [CHR 0x0A]"

definition dquote :: string where
  "dquote = [CHR 0x22]"

text \<open>\<open>_.includes\<close> on an array of strings: a value that is not a string is not included.\<close>

fun includes_value :: "string list \<Rightarrow> js_value \<Rightarrow> bool" where
  "includes_value xs (JSString s) = (s \<in> set xs)"
| "includes_value xs v = False"

text \<open>\<open>Array.prototype.map\<close> with a callback that may throw: the first exception ends it.\<close>

fun map_result :: "('a \<Rightarrow> error + 'b) \<Rightarrow> 'a list \<Rightarrow> error + 'b list" where
  "map_result f [] = Inr []"
| "map_result f (x # xs) =
     (case f x of
        Inl e \<Rightarrow> Inl e
      | Inr y \<Rightarrow> (case map_result f xs of Inl e \<Rightarrow> Inl e | Inr ys \<Rightarrow> Inr (y # ys)))"

text \<open>Lines 68 and 69: the build timestamp, from \<open>new Date().toISOString()\<close>.\<close>

definition timestamp_of :: "string \<Rightarrow> string" where
  "timestamp_of isoString =
     (let timestamp = js_join '' '' (js_split CHR ''T'' isoString)
      in js_substring timestamp 0 (js_indexOf CHR ''.'' timestamp) @ '' UTC'')"

text \<open>Lines 72 to 76: the module bundle, built by the collaborator \<open>requireBuild\<close>.\<close>

definition requireJS_of :: "world \<Rightarrow> string \<Rightarrow> js_value \<Rightarrow> string \<Rightarrow> string" where
  "requireJS_of w r instrument b =
     requireBuild w r (''../'' @ r @ ''/js/'' @ r @ ''-config.js'')
       \<lparr> rb_insertRequire = r @ ''-main'', rb_instrument = instrument, rb_brand = b \<rparr>"

text \<open>Line 93.\<close>

definition rawPreloads_of :: "world \<Rightarrow> string \<Rightarrow> string \<Rightarrow> string list" where
  "rawPreloads_of w r b = map (file_read w) (getPreloads w r b)"

text \<open>Line 78.\<close>

definition productionJS_of :: "world \<Rightarrow> bool \<Rightarrow> bool \<Rightarrow> string \<Rightarrow> error + string" where
  "productionJS_of w uglify mangle' requireJS =
     (if uglify
      then minify (babel_transform w) (uglify_minify w) requireJS
             (no_options\<lparr> mangle := Some mangle', babelTranspile := Some True \<rparr>)
      else Inr requireJS)"

text \<open>Lines 79 to 84.\<close>

definition debugJS_of :: "world \<Rightarrow> string \<Rightarrow> string \<Rightarrow> error + string" where
  "debugJS_of w brand requireJS =
     (if brand = ''phet-io''
      then minify (babel_transform w) (uglify_minify w) requireJS
             \<lparr> mangle = Some True, babelTranspile = Some True,
               stripAssertions = Some False, stripLogging = Some False \<rparr>
      else Inr requireJS)"

text \<open>Line 94.\<close>

definition productionPreloads_of :: "world \<Rightarrow> bool \<Rightarrow> bool \<Rightarrow> string list \<Rightarrow> error + string list" where
  "productionPreloads_of w uglify mangle' rawPreloads =
     map_result (\<lambda>js. if uglify
                      then minify (babel_transform w) (uglify_minify w) js
                             (no_options\<lparr> mangle := Some mangle' \<rparr>)
                      else Inr js) rawPreloads"

text \<open>Line 95.\<close>

definition debugPreloads_of :: "world \<Rightarrow> string \<Rightarrow> string list \<Rightarrow> error + string list" where
  "debugPreloads_of w brand rawPreloads =
     map_result (\<lambda>js. if brand = ''phet-io''
                      then minify (babel_transform w) (uglify_minify w) js
                             (no_options\<lparr> mangle := Some True \<rparr>)
                      else Inr js) rawPreloads"

text \<open>Line 99: \<open>split\<close> is a method of strings only.\<close>

definition locales_of :: "string list \<Rightarrow> js_value \<Rightarrow> error + string list" where
  "locales_of allLocales localesOption =
     (case localesOption of
        JSString l \<Rightarrow> Inr (if l = ''*'' then allLocales else js_split CHR '','' l)
      | _ \<Rightarrow> Inl TypeError)"

text \<open>
  Lines 107 and 108: the title is read from the table of the fallback locale and must be
  truthy, that is, present and not the empty string.
\<close>

definition englishTitle_of :: "string_map \<Rightarrow> string \<Rightarrow> string \<Rightarrow> error + string" where
  "englishTitle_of stringMap fallback simTitleStringKey =
     (case stringMap fallback of
        None \<Rightarrow> Inl TypeError
      | Some table \<Rightarrow>
          (case table simTitleStringKey of
             None \<Rightarrow> Inl (AssertionError (Some (''missing entry for sim title, key = '' @ simTitleStringKey)))
           | Some englishTitle \<Rightarrow>
               if englishTitle = []
               then Inl (AssertionError (Some (''missing entry for sim title, key = '' @ simTitleStringKey)))
               else Inr englishTitle))"

text \<open>Lines 110 to 139: the comment header of the HTML files, selected by the brand.\<close>

definition htmlHeader_of :: "world \<Rightarrow> string \<Rightarrow> string \<Rightarrow> string \<Rightarrow> string" where
  "htmlHeader_of w brand englishTitle version =
     (if brand = ''phet-io''
      then englishTitle @ '' '' @ version @ nl @
           ''Copyright 2002-'' @ template_today w ''yyyy'' @ '', Regents of the University of Colorado'' @ nl @
           ''PhET Interactive Simulations, University of Colorado Boulder'' @ nl @
           nl @
           ''This Interoperable PhET Simulation file requires a license.'' @ nl @
           ''USE WITHOUT A LICENSE AGREEMENT IS STRICTLY PROHIBITED.'' @ nl @
           ''Contact phethelp@colorado.edu regarding licensing.'' @ nl @
           ''https://phet.colorado.edu/en/licensing''
      else englishTitle @ '' '' @ version @ nl @
           ''Copyright 2002-'' @ template_today w ''yyyy'' @ '', Regents of the University of Colorado'' @ nl @
           ''PhET Interactive Simulations, University of Colorado Boulder'' @ nl @
           nl @
           ''This file is licensed under Creative Commons Attribution 4.0'' @ nl @
           ''For alternate source code licensing, see https://github.com/phetsims'' @ nl @
           ''For licenses for third-party software used by this simulation, see below'' @ nl @
           ''For more information, see https://phet.colorado.edu/en/licensing/html'' @ nl @
           nl @
           ''The PhET name and PhET logo are registered trademarks of The Regents of the'' @ nl @
           ''University of Colorado. Permission is granted to use the PhET name and PhET logo'' @ nl @
           ''only for attribution purposes. Use of the PhET name and/or PhET logo for promotional,'' @ nl @
           ''marketing, or advertising purposes requires a separate license agreement from the'' @ nl @
           ''University of Colorado. Contact phethelp@colorado.edu regarding licensing.'')"

text \<open>
  The constants that lines 54 to 157 bind, under the names of the source. \<open>repo\<close> and
  \<open>brand\<close> are the arguments once the assertions have established that they are strings.
\<close>

record build_values =
  repo :: string
  brand :: string
  allHTML :: js_value
  packageObject :: package_object
  timestamp :: string
  requireJS :: string
  productionJS :: string
  debugJS :: string
  rawPreloads :: "string list"
  productionPreloads :: "string list"
  debugPreloads :: "string list"
  phetLibs :: "string list"
  allLocales :: "string list"
  locales :: "string list"
  dependencies :: json
  version :: string
  thirdPartyEntries :: json
  stringMap :: string_map
  mipmapsJavaScript :: string
  simTitleStringKey :: string
  englishTitle :: string
  htmlHeader :: string
  chipperStringsScript :: string
  splashScript :: string

text \<open>
  Lines 54 to 157, in the order of the source. Every assertion, every call of \<open>minify\<close>
  and every property access that can throw is a branch that returns the exception.
\<close>

definition buildRunnable_values ::
  "world \<Rightarrow> js_value \<Rightarrow> js_value \<Rightarrow> js_value \<Rightarrow> js_value \<Rightarrow> js_value \<Rightarrow> js_value \<Rightarrow> js_value
     \<Rightarrow> error + build_values" where
  "buildRunnable_values w repo' uglify mangle' instrument allHTML' brand' localesOption =
     (if typeof repo' \<noteq> ''string'' then Inl (AssertionError None)
      else if typeof uglify \<noteq> ''boolean'' then Inl (AssertionError None)
      else if typeof mangle' \<noteq> ''boolean'' then Inl (AssertionError None)
      else if \<not> includes_value (BRANDS w) brand'
        then Inl (AssertionError (Some (''Unknown brand in buildRunnable: '' @ js_to_string brand')))
      else if brand' = JSString ''phet-io'' \<and> \<not> file_exists w ''../phet-io''
        then Inl (AssertionError (Some
               (''Aborting the build of phet-io brand since proprietary repositories are not checked out.'' @ nl @
                ''Please use --brands=={{BRAND}} in the future to avoid this.'')))
      else
        let r = js_to_string repo';
            b = js_to_string brand';
            packageObject' = file_readJSON w (''../'' @ r @ ''/package.json'');
            timestamp' = timestamp_of (Date_toISOString w);
            requireJS' = requireJS_of w r instrument b
        in case productionJS_of w (truthy uglify) (truthy mangle') requireJS' of
             Inl e \<Rightarrow> Inl e
           | Inr productionJS' \<Rightarrow>
        (case debugJS_of w b requireJS' of
             Inl e \<Rightarrow> Inl e
           | Inr debugJS' \<Rightarrow>
        (let rawPreloads' = rawPreloads_of w r b
         in case productionPreloads_of w (truthy uglify) (truthy mangle') rawPreloads' of
             Inl e \<Rightarrow> Inl e
           | Inr productionPreloads' \<Rightarrow>
        (case debugPreloads_of w b rawPreloads' of
             Inl e \<Rightarrow> Inl e
           | Inr debugPreloads' \<Rightarrow>
        (let phetLibs' = getPhetLibs w r b;
             allLocales' = FALLBACK_LOCALE w # getLocalesFromRepository w r
         in case locales_of allLocales' localesOption of
             Inl e \<Rightarrow> Inl e
           | Inr locales' \<Rightarrow>
        (let dependencies' = getDependencies w r;
             version' = pkg_version packageObject';
             thirdPartyEntries' = getAllThirdPartyEntries w r b;
             stringMap' = getStringMap w allLocales' phetLibs';
             mipmapsJavaScript' = buildMipmaps w;
             simTitleStringKey' = getTitleStringKey w r
         in case englishTitle_of stringMap' (FALLBACK_LOCALE w) simTitleStringKey' of
             Inl e \<Rightarrow> Inl e
           | Inr englishTitle' \<Rightarrow>
             Inr \<lparr> repo = r,
                   brand = b,
                   allHTML = allHTML',
                   packageObject = packageObject',
                   timestamp = timestamp',
                   requireJS = requireJS',
                   productionJS = productionJS',
                   debugJS = debugJS',
                   rawPreloads = rawPreloads',
                   productionPreloads = productionPreloads',
                   debugPreloads = debugPreloads',
                   phetLibs = phetLibs',
                   allLocales = allLocales',
                   locales = locales',
                   dependencies = dependencies',
                   version = version',
                   thirdPartyEntries = thirdPartyEntries',
                   stringMap = stringMap',
                   mipmapsJavaScript = mipmapsJavaScript',
                   simTitleStringKey = simTitleStringKey',
                   englishTitle = englishTitle',
                   htmlHeader = htmlHeader_of w b englishTitle' version',
                   chipperStringsScript = file_read w ''../chipper/templates/chipper-strings.js'',
                   splashScript =
                     ''window.PHET_SPLASH_DATA_URI='' @ dquote @
                     loadFileAsDataURI w (''../brand/'' @ b @ ''/images/splash.svg'') @ dquote @ '';'' \<rparr>))))))"

subsection \<open>The writes\<close>

text \<open>
  Lines 149 to 157 and the \<open>_.extend\<close> calls: the options object handed to
  \<open>getInitializationScript\<close>.
\<close>

definition initializationOptions :: "build_values \<Rightarrow> string \<Rightarrow> bool \<Rightarrow> bool \<Rightarrow> initialization_options" where
  "initializationOptions v locale includeAllLocales isDebugBuild =
     \<lparr> io_locale = locale,
       io_includeAllLocales = includeAllLocales,
       io_isDebugBuild = isDebugBuild,
       io_brand = brand v,
       io_repo = repo v,
       io_stringMap = stringMap v,
       io_dependencies = dependencies v,
       io_timestamp = timestamp v,
       io_version = version v,
       io_thirdPartyEntries = thirdPartyEntries v \<rparr>"

text \<open>Line 160.\<close>

definition buildDir :: "build_values \<Rightarrow> string" where
  "buildDir v = ''../'' @ repo v @ ''/build/'' @ brand v"

text \<open>Lines 166 to 177: the argument of \<open>packageRunnable\<close> for one locale.\<close>

definition locale_html_args :: "world \<Rightarrow> build_values \<Rightarrow> string \<Rightarrow> runnable_args" where
  "locale_html_args w v locale =
     (let initializationScript = getInitializationScript w (initializationOptions v locale False False)
      in \<lparr> pr_repo = repo v,
           pr_stringMap = stringMap v,
           pr_htmlHeader = htmlHeader v,
           pr_locale = locale,
           pr_scripts = [initializationScript, splashScript v, mipmapsJavaScript v] @
                        productionPreloads v @ [chipperStringsScript v, productionJS v] \<rparr>)"

text \<open>Lines 163 to 179: \<open>{{locale}}.html\<close>.\<close>

definition locale_html :: "world \<Rightarrow> build_values \<Rightarrow> fs_action list" where
  "locale_html w v =
     (if brand v \<noteq> ''phet-io''
      then map (\<lambda>locale. Write (buildDir v @ ''/'' @ repo v @ ''_'' @ locale @ ''_'' @ brand v @ ''.html'')
                               (packageRunnable w (locale_html_args w v locale)))
               (locales v)
      else [])"

text \<open>Lines 183 to 194: the argument of \<open>packageRunnable\<close> for \<open>_all.html\<close>.\<close>

definition all_html_args :: "world \<Rightarrow> build_values \<Rightarrow> runnable_args" where
  "all_html_args w v =
     (let initializationScript =
            getInitializationScript w (initializationOptions v (FALLBACK_LOCALE w) True False)
      in \<lparr> pr_repo = repo v,
           pr_stringMap = stringMap v,
           pr_htmlHeader = htmlHeader v,
           pr_locale = FALLBACK_LOCALE w,
           pr_scripts = [initializationScript, splashScript v, mipmapsJavaScript v] @
                        productionPreloads v @ [chipperStringsScript v, productionJS v] \<rparr>)"

text \<open>Lines 181 to 195: \<open>_all.html\<close> (forced for phet-io).\<close>

definition all_html :: "world \<Rightarrow> build_values \<Rightarrow> fs_action list" where
  "all_html w v =
     (if truthy (allHTML v) \<or> brand v = ''phet-io''
      then [Write (buildDir v @ ''/'' @ repo v @ ''_all_'' @ brand v @ ''.html'')
                  (packageRunnable w (all_html_args w v))]
      else [])"

text \<open>Lines 198 to 209: the argument of \<open>packageRunnable\<close> for the debug build.\<close>

definition debug_html_args :: "world \<Rightarrow> build_values \<Rightarrow> runnable_args" where
  "debug_html_args w v =
     (let debugInitializationScript =
            getInitializationScript w (initializationOptions v (FALLBACK_LOCALE w) True True)
      in \<lparr> pr_repo = repo v,
           pr_stringMap = stringMap v,
           pr_htmlHeader = htmlHeader v,
           pr_locale = FALLBACK_LOCALE w,
           pr_scripts = [debugInitializationScript, splashScript v, mipmapsJavaScript v] @
                        debugPreloads v @ [chipperStringsScript v, debugJS v] \<rparr>)"

text \<open>Lines 197 to 209: the debug build (always included).\<close>

definition debug_html :: "world \<Rightarrow> build_values \<Rightarrow> fs_action list" where
  "debug_html w v =
     [Write (buildDir v @ ''/'' @ repo v @ ''_all_'' @ brand v @ ''_debug.html'')
            (packageRunnable w (debug_html_args w v))]"

text \<open>Lines 214 to 225: the argument of \<open>packageXHTML\<close>.\<close>

definition xhtml_build_args :: "world \<Rightarrow> build_values \<Rightarrow> xhtml_args" where
  "xhtml_build_args w v =
     (let xhtmlInitializationScript =
            getInitializationScript w (initializationOptions v (FALLBACK_LOCALE w) True False)
      in \<lparr> px_repo = repo v,
           px_brand = brand v,
           px_stringMap = stringMap v,
           px_htmlHeader = htmlHeader v,
           px_scripts = [xhtmlInitializationScript, splashScript v, mipmapsJavaScript v] @
                        productionPreloads v @ [chipperStringsScript v, productionJS v] \<rparr>)"

text \<open>Lines 211 to 225: the XHTML build.\<close>

definition xhtml_build :: "world \<Rightarrow> build_values \<Rightarrow> fs_action list" where
  "xhtml_build w v =
     (let xhtmlDir = buildDir v @ ''/xhtml''
      in [Mkdir xhtmlDir, PackageXHTML xhtmlDir (xhtml_build_args w v)])"

text \<open>Lines 227 and 228.\<close>

definition dependencies_json :: "world \<Rightarrow> build_values \<Rightarrow> fs_action list" where
  "dependencies_json w v =
     [Write (buildDir v @ ''/dependencies.json'') (JSON_stringify w (dependencies v))]"

text \<open>
  Lines 230 to 244: the iframe test pages. Line 232 reads the title again, from the same
  table and key as line 107.
\<close>

definition iframe_html :: "world \<Rightarrow> build_values \<Rightarrow> fs_action list" where
  "iframe_html w v =
     (if FALLBACK_LOCALE w \<in> set (locales v) \<and> brand v = ''phet''
      then
        let iframeTestHtml0 = file_read w ''../chipper/templates/sim-iframe.html'';
            iframeTestHtml1 = replaceFirst w iframeTestHtml0 ''{{PHET_SIM_TITLE}}''
                                (htmlEncode w (englishTitle v @ '' iframe test''));
            iframeTestHtml = replaceFirst w iframeTestHtml1 ''{{PHET_REPOSITORY}}'' (repo v);
            iframeLocales = [''en''] @ (if truthy (allHTML v) then [''all''] else [])
        in map (\<lambda>locale. Write (buildDir v @ ''/'' @ repo v @ ''_'' @ locale @ ''_iframe_phet.html'')
                                 (replaceFirst w iframeTestHtml ''{{PHET_LOCALE}}'' locale))
               iframeLocales
      else [])"

text \<open>Lines 246 to 255: the a11y view.\<close>

definition a11y_view :: "world \<Rightarrow> build_values \<Rightarrow> fs_action list" where
  "a11y_view w v =
     (if accessible (pkg_phet (packageObject v)) \<and> brand v = ''phet''
      then
        let a11yHTML = replaceAll w (getA11yViewHTMLFromTemplate w (repo v)) ''{{IS_BUILT}}'' ''true''
        in [Write (buildDir v @ ''/'' @ repo v @ A11Y_VIEW_HTML_SUFFIX w) a11yHTML]
      else [])"

text \<open>Lines 257 to 259.\<close>

definition supplemental_phetio_files :: "world \<Rightarrow> build_values \<Rightarrow> fs_action list" where
  "supplemental_phetio_files w v =
     (if brand v = ''phet-io'' then [CopySupplementalPhetioFiles (repo v) (version v)] else [])"

text \<open>Lines 261 to 274: thumbnails and twitter card.\<close>

definition thumbnailSizes :: "(nat \<times> nat) list" where
  "thumbnailSizes = [(128, 84), (600, 394)]"

definition thumbnails :: "world \<Rightarrow> build_values \<Rightarrow> fs_action list" where
  "thumbnails w v =
     (if file_exists w (''../'' @ repo v @ ''/assets/'' @ repo v @ ''-screenshot.png'')
      then
        map (\<lambda>(width, height).
               Write (buildDir v @ ''/'' @ repo v @ ''-'' @ string_of_nat width @ ''.png'')
                     (generateThumbnails w (repo v) width height))
            thumbnailSizes @
        (if brand v = ''phet''
         then [Write (buildDir v @ ''/'' @ repo v @ ''-twitter-card.png'') (generateTwitterCard w (repo v))]
         else [])
      else [])"

text \<open>Lines 159 to 274, in the order of the source.\<close>

definition buildRunnable_writes :: "world \<Rightarrow> build_values \<Rightarrow> fs_action list" where
  "buildRunnable_writes w v =
     [Mkdir (buildDir v)] @
     locale_html w v @
     all_html w v @
     debug_html w v @
     xhtml_build w v @
     dependencies_json w v @
     iframe_html w v @
     a11y_view w v @
     supplemental_phetio_files w v @
     thumbnails w v"

text \<open>
  The whole function: the effects on the file system, and the exception when the promise
  is rejected. Every exception of the model is thrown before line 161, with nothing
  written yet.
\<close>

definition buildRunnable ::
  "world \<Rightarrow> js_value \<Rightarrow> js_value \<Rightarrow> js_value \<Rightarrow> js_value \<Rightarrow> js_value \<Rightarrow> js_value \<Rightarrow> js_value
     \<Rightarrow> fs_action list \<times> error option" where
  "buildRunnable w repo' uglify mangle' instrument allHTML' brand' localesOption =
     (case buildRunnable_values w repo' uglify mangle' instrument allHTML' brand' localesOption of
        Inl e \<Rightarrow> ([], Some e)
      | Inr v \<Rightarrow> (buildRunnable_writes w v, None))"

section \<open>The order of the scripts of an artifact\<close>

text \<open>
  A script list is in order when the initialization script is its first element, the
  splash script its second, the string-accessor script its last but one and the main code
  its last. With at least five elements these four positions are distinct and increasing:
  \<open>0 < 1 < n - 2 < n - 1\<close>.
\<close>

definition scripts_in_order :: "string \<Rightarrow> string \<Rightarrow> string \<Rightarrow> string \<Rightarrow> string list \<Rightarrow> bool" where
  "scripts_in_order initializationScript splash strings code scripts =
     (5 \<le> length scripts
      \<and> scripts ! 0 = initializationScript
      \<and> scripts ! 1 = splash
      \<and> scripts ! (length scripts - 2) = strings
      \<and> scripts ! (length scripts - 1) = code)"

section \<open>A concrete environment\<close>

text \<open>
  A small environment on which the model is evaluated: three brands, the fallback locale
  \<open>en\<close>, one translated locale, one preload, a compressor that returns its input, and
  packaging steps that concatenate what they are given.
\<close>

definition echo_uglify :: uglify where
  "echo_uglify js config = \<lparr> result_error = None, result_code = js \<rparr>"

definition demo_world :: world where
  "demo_world =
     \<lparr> BRANDS = [''phet'', ''phet-io'', ''adapted-from-phet''],
       FALLBACK_LOCALE = ''en'',
       A11Y_VIEW_HTML_SUFFIX = ''_a11y_view.html'',
       file_exists = (\<lambda>path. path = ''../phet-io''),
       file_read = (\<lambda>path. path),
       file_readJSON = (\<lambda>path. \<lparr> pkg_version = ''1.0.0'',
                                   pkg_phet = \<lparr> requirejsNamespace = ''DEMO'', accessible = False \<rparr> \<rparr>),
       Date_toISOString = ''2017-12-31T23:59:59.123Z'',
       template_today = (\<lambda>format. ''2017''),
       requireBuild = (\<lambda>r config options. ''main();''),
       babel_transform = (\<lambda>js options. Inr js),
       uglify_minify = echo_uglify,
       getPreloads = (\<lambda>r b. [''preload.js'']),
       getPhetLibs = (\<lambda>r b. [r]),
       getLocalesFromRepository = (\<lambda>r. [''es'']),
       getDependencies = (\<lambda>r. JObject []),
       getAllThirdPartyEntries = (\<lambda>r b. JObject []),
       getStringMap = (\<lambda>ls libs l. if l \<in> set ls then Some (\<lambda>key. Some ''Demo'') else None),
       buildMipmaps = ''mipmaps;'',
       getTitleStringKey = (\<lambda>r. ''DEMO/demo.title''),
       loadFileAsDataURI = (\<lambda>path. ''data:''),
       getInitializationScript = (\<lambda>options. io_timestamp options),
       packageRunnable = (\<lambda>args. pr_htmlHeader args @ concat (pr_scripts args)),
       JSON_stringify = (\<lambda>j. ''{}''),
       htmlEncode = (\<lambda>s. s),
       replaceFirst = (\<lambda>s find' replacement. s),
       replaceAll = (\<lambda>s find' replacement. s),
       getA11yViewHTMLFromTemplate = (\<lambda>r. ''a11y''),
       generateThumbnails = (\<lambda>r width height. ''png''),
       generateTwitterCard = (\<lambda>r. ''png'') \<rparr>"

text \<open>A compressor that reports an error on every input.\<close>

definition failing_uglify :: uglify where
  "failing_uglify js config = \<lparr> result_error = Some ''Unexpected token'', result_code = [] \<rparr>"

text \<open>The same environment with a string table that has no entry for the title key.\<close>

definition untitled_world :: world where
  "untitled_world =
     demo_world\<lparr> getStringMap := (\<lambda>ls libs l. if l \<in> set ls then Some (\<lambda>key. None) else None) \<rparr>"

text \<open>The same environment without the sibling directory \<open>../phet-io\<close>.\<close>

definition no_sibling_world :: world where
  "no_sibling_world = demo_world\<lparr> file_exists := (\<lambda>path. False) \<rparr>"

text \<open>
  Two further readings of the clock. The first is taken later within the same second of
  the same year. The second is the reading of a run that starts at the same instant and
  reaches the header after midnight of New Year's Eve: the same timestamp, the next year.
\<close>

definition later_iso :: string where
  "later_iso = ''2017-12-31T23:59:59.987Z''"

definition later_today :: "string \<Rightarrow> string" where
  "later_today format = (if format = ''yyyy'' then ''2017'' else ''17'')"

definition new_year_world :: world where
  "new_year_world = demo_world\<lparr> template_today := (\<lambda>format. ''2018'') \<rparr>"

section \<open>Properties of minify\<close>

text \<open>
  C5. When the compression step reports an error on the (possibly transpiled) input,
  \<open>minify\<close> throws an \<open>Error\<close> that carries the detail of the reported error. The result
  is the exception and no code: neither the input nor anything derived from it is
  returned.
\<close>

theorem minify_compression_error:
  assumes "(if default_to False (babelTranspile options) then transpile bt js else Inr js) = Inr js'"
    and "result_error (um js' (minify_config options)) = Some detail"
  shows "minify bt um js options = Inl (Error detail)"
  using assms by (simp add: minify_def Let_def)

theorem minify_compression_error_witness:
  "(if default_to False (babelTranspile no_options)
    then transpile (\<lambda>js options. Inr js) ''var x;'' else Inr ''var x;'') = Inr ''var x;''
   \<and> result_error (failing_uglify ''var x;'' (minify_config no_options)) = Some ''Unexpected token''
   \<and> minify (\<lambda>js options. Inr js) failing_uglify ''var x;'' no_options = Inl (Error ''Unexpected token'')"
proof -
  have h1: "(if default_to False (babelTranspile no_options)
    then transpile (\<lambda>js options. Inr js) ''var x;'' else Inr ''var x;'') = Inr ''var x;''"
    by (simp add: no_options_def default_to_def)
  have h2: "result_error (failing_uglify ''var x;'' (minify_config no_options)) = Some ''Unexpected token''"
    by (simp add: failing_uglify_def)
  from minify_compression_error [where options = no_options and bt = "\<lambda>js options. Inr js"
      and js = "''var x;''" and js' = "''var x;''" and um = failing_uglify
      and detail = "''Unexpected token''", OF h1 h2] h1 h2
  show ?thesis by blast
qed

text \<open>
  C3. The post-fix of \<open>minify\<close> is \<open>replace\<close> with a string pattern, which rewrites the
  first occurrence only. When the compressor's output holds the character U+000B twice,
  the first one is escaped and the second one is returned raw: the returned code still
  contains U+000B.
\<close>

theorem minify_second_vertical_tab_survives:
  "minify bt echo_uglify [vertical_tab, vertical_tab] no_options
     = Inr (escaped_vertical_tab @ [vertical_tab])"
  by (simp add: minify_def no_options_def default_to_def echo_uglify_def)

section \<open>Properties of the derived values\<close>

lemma typeof_string: "typeof x = ''string'' \<longleftrightarrow> (\<exists>s. x = JSString s)"
  by (cases x) auto

lemma typeof_boolean: "typeof x = ''boolean'' \<longleftrightarrow> (\<exists>b. x = JSBool b)"
  by (cases x) auto

lemma includes_value_iff: "includes_value xs x \<longleftrightarrow> (\<exists>s. x = JSString s \<and> s \<in> set xs)"
  by (cases x) auto



text \<open>What a build that reaches the write phase has established and bound.\<close>

lemma buildRunnable_values_InrD:
  assumes "buildRunnable_values w repo' uglify mangle' instrument allHTML' brand' localesOption = Inr v"
  shows "repo' = JSString (repo v)"
    and "brand' = JSString (brand v)"
    and "typeof uglify = ''boolean''"
    and "typeof mangle' = ''boolean''"
    and "brand v \<in> set (BRANDS w)"
    and "allHTML v = allHTML'"
    and "requireJS v = requireJS_of w (repo v) instrument (brand v)"
    and "productionJS_of w (truthy uglify) (truthy mangle') (requireJS v) = Inr (productionJS v)"
    and "debugJS_of w (brand v) (requireJS v) = Inr (debugJS v)"
    and "rawPreloads v = rawPreloads_of w (repo v) (brand v)"
    and "productionPreloads_of w (truthy uglify) (truthy mangle') (rawPreloads v) = Inr (productionPreloads v)"
    and "debugPreloads_of w (brand v) (rawPreloads v) = Inr (debugPreloads v)"
    and "locales_of (FALLBACK_LOCALE w # getLocalesFromRepository w (repo v)) localesOption = Inr (locales v)"
  using assms unfolding buildRunnable_values_def Let_def
  by (auto simp: typeof_string includes_value_iff split: if_splits sum.splits)

lemma buildRunnable_values_title:
  assumes "buildRunnable_values w repo' uglify mangle' instrument allHTML' brand' localesOption = Inr v"
  shows "englishTitle_of
           (getStringMap w (FALLBACK_LOCALE w # getLocalesFromRepository w (repo v))
              (getPhetLibs w (repo v) (brand v)))
           (FALLBACK_LOCALE w) (getTitleStringKey w (repo v)) = Inr (englishTitle v)"
    and "brand v = ''phet-io'' \<Longrightarrow> file_exists w ''../phet-io''"
    and "includes_value (BRANDS w) brand'"
  using assms unfolding buildRunnable_values_def Let_def
  by (auto simp: typeof_string includes_value_iff split: if_splits sum.splits)

lemma buildRunnable_Inr:
  assumes "buildRunnable_values w repo' uglify mangle' instrument allHTML' brand' localesOption = Inr v"
  shows "buildRunnable w repo' uglify mangle' instrument allHTML' brand' localesOption =
           (buildRunnable_writes w v, None)"
  by (simp add: buildRunnable_def assms)

text \<open>The concrete environment reaches the write phase, for the open and the restricted brand.\<close>

lemmas demo_defs =
  demo_world_def buildRunnable_values_def requireJS_of_def rawPreloads_of_def productionJS_of_def
  debugJS_of_def productionPreloads_of_def debugPreloads_of_def locales_of_def englishTitle_of_def
  minify_def transpile_def no_options_def default_to_def echo_uglify_def Let_def

lemma demo_phet_io_values:
  "\<exists>v. buildRunnable_values demo_world (JSString ''demo'') (JSBool True) (JSBool True) (JSBool False)
         (JSBool False) (JSString ''phet-io'') (JSString ''*'') = Inr v"
  by (simp add: demo_defs)


text \<open>
  C1. For the brand \<open>phet-io\<close>, line 95 calls \<open>minify\<close> on every raw preload with the
  single option \<open>mangle: true\<close>. The options \<open>stripAssertions\<close> and \<open>stripLogging\<close> are
  left out and default to true, so the configuration of the compressor binds \<open>assert\<close>,
  \<open>assertSlow\<close>, \<open>sceneryLog\<close> and \<open>sceneryAccessibilityLog\<close> to false: the debug preloads
  of the restricted brand are stripped.
\<close>

theorem debugPreloads_phet_io_stripped:
  "debugPreloads_of w ''phet-io'' rawPreloads' =
     map_result (\<lambda>js. minify (babel_transform w) (uglify_minify w) js
                        \<lparr> mangle = Some True, babelTranspile = None,
                          stripAssertions = None, stripLogging = None \<rparr>) rawPreloads'
   \<and> minify_config \<lparr> mangle = Some True, babelTranspile = None,
                     stripAssertions = None, stripLogging = None \<rparr> =
     \<lparr> config_mangle = MangleSafari10 True,
       dead_code = True,
       global_defs = [(''assert'', False), (''assertSlow'', False),
                      (''sceneryLog'', False), (''sceneryAccessibilityLog'', False)],
       inline_script = True,
       beautify = False \<rparr>"
  by (simp add: debugPreloads_of_def no_options_def minify_config_def default_to_def)

text \<open>
  C6. In a build that reaches the write phase, the module bundle is the result of
  \<open>requireBuild\<close>. The production code is \<open>minify\<close> of the bundle (transpiled first, mangled
  as the caller asked) when \<open>uglify\<close> is true, and the bundle itself when \<open>uglify\<close> is
  false. The debug code is \<open>minify\<close> of the bundle with \<open>stripAssertions\<close> and
  \<open>stripLogging\<close> false for the brand \<open>phet-io\<close> (a configuration that binds no global),
  and the bundle itself for every other brand.
\<close>

theorem code_artifacts:
  assumes "buildRunnable_values w repo' uglify mangle' instrument allHTML' brand' localesOption = Inr v"
  shows "requireJS v = requireJS_of w (repo v) instrument (brand v)
     \<and> (if uglify = JSBool True
         then minify (babel_transform w) (uglify_minify w) (requireJS v)
                \<lparr> mangle = Some (truthy mangle'), babelTranspile = Some True,
                  stripAssertions = None, stripLogging = None \<rparr> = Inr (productionJS v)
         else uglify = JSBool False \<and> productionJS v = requireJS v)
     \<and> (if brand v = ''phet-io''
         then minify (babel_transform w) (uglify_minify w) (requireJS v)
                \<lparr> mangle = Some True, babelTranspile = Some True,
                  stripAssertions = Some False, stripLogging = Some False \<rparr> = Inr (debugJS v)
         else debugJS v = requireJS v)
     \<and> global_defs (minify_config \<lparr> mangle = Some True, babelTranspile = Some True,
                  stripAssertions = Some False, stripLogging = Some False \<rparr>) = []"
proof -
  note d = buildRunnable_values_InrD [OF assms]
  from d(3) obtain u where u: "uglify = JSBool u"
    by (auto simp: typeof_boolean)
  have "if uglify = JSBool True
         then minify (babel_transform w) (uglify_minify w) (requireJS v)
                \<lparr> mangle = Some (truthy mangle'), babelTranspile = Some True,
                  stripAssertions = None, stripLogging = None \<rparr> = Inr (productionJS v)
         else uglify = JSBool False \<and> productionJS v = requireJS v"
    using d(8) u by (cases u) (simp_all add: productionJS_of_def no_options_def)
  moreover have "if brand v = ''phet-io''
         then minify (babel_transform w) (uglify_minify w) (requireJS v)
                \<lparr> mangle = Some True, babelTranspile = Some True,
                  stripAssertions = Some False, stripLogging = Some False \<rparr> = Inr (debugJS v)
         else debugJS v = requireJS v"
    using d(9) by (simp add: debugJS_of_def split: if_splits)
  moreover have "global_defs (minify_config \<lparr> mangle = Some True, babelTranspile = Some True,
                  stripAssertions = Some False, stripLogging = Some False \<rparr>) = []"
    by (simp add: minify_config_def default_to_def)
  ultimately show ?thesis using d(7) by blast
qed

theorem code_artifacts_witness:
  "\<exists>v. buildRunnable_values demo_world (JSString ''demo'') (JSBool True) (JSBool True) (JSBool False)
         (JSBool False) (JSString ''phet-io'') (JSString ''*'') = Inr v
     \<and> requireJS v = requireJS_of demo_world (repo v) (JSBool False) (brand v)
     \<and> (if JSBool True = JSBool True
         then minify (babel_transform demo_world) (uglify_minify demo_world) (requireJS v)
                \<lparr> mangle = Some (truthy (JSBool True)), babelTranspile = Some True,
                  stripAssertions = None, stripLogging = None \<rparr> = Inr (productionJS v)
         else JSBool True = JSBool False \<and> productionJS v = requireJS v)
     \<and> (if brand v = ''phet-io''
         then minify (babel_transform demo_world) (uglify_minify demo_world) (requireJS v)
                \<lparr> mangle = Some True, babelTranspile = Some True,
                  stripAssertions = Some False, stripLogging = Some False \<rparr> = Inr (debugJS v)
         else debugJS v = requireJS v)
     \<and> global_defs (minify_config \<lparr> mangle = Some True, babelTranspile = Some True,
                  stripAssertions = Some False, stripLogging = Some False \<rparr>) = []"
proof -
  from demo_phet_io_values obtain v where
    v: "buildRunnable_values demo_world (JSString ''demo'') (JSBool True) (JSBool True) (JSBool False)
         (JSBool False) (JSString ''phet-io'') (JSString ''*'') = Inr v" ..
  from code_artifacts [OF v] v show ?thesis by blast
qed

section \<open>Properties of the writes\<close>







text \<open>
  C9. The script lists of the four packaging calls (one locale, all locales, debug, XHTML)
  are in order: the initialization script is first, the splash script second, the
  string-accessor script last but one and the main code (production or debug) last. The
  string-accessor script, the initialization script and the splash script thus stand
  before the main code.
\<close>

theorem script_order:
  "scripts_in_order (getInitializationScript w (initializationOptions v locale False False))
     (splashScript v) (chipperStringsScript v) (productionJS v)
     (pr_scripts (locale_html_args w v locale))
   \<and> scripts_in_order (getInitializationScript w (initializationOptions v (FALLBACK_LOCALE w) True False))
     (splashScript v) (chipperStringsScript v) (productionJS v)
     (pr_scripts (all_html_args w v))
   \<and> scripts_in_order (getInitializationScript w (initializationOptions v (FALLBACK_LOCALE w) True True))
     (splashScript v) (chipperStringsScript v) (debugJS v)
     (pr_scripts (debug_html_args w v))
   \<and> scripts_in_order (getInitializationScript w (initializationOptions v (FALLBACK_LOCALE w) True False))
     (splashScript v) (chipperStringsScript v) (productionJS v)
     (px_scripts (xhtml_build_args w v))"
proof -
  have order: "scripts_in_order i s c j ([i, s, m] @ ps @ [c, j])" for i s c j m ps
    by (simp add: scripts_in_order_def nth_append)
  show ?thesis
    unfolding locale_html_args_def all_html_args_def debug_html_args_def xhtml_build_args_def Let_def
    by (simp add: order del: append.simps)
qed

section \<open>Failures\<close>

text \<open>
  C4, as the code has it. The assertions of lines 54 to 61 check the type of the
  repository and of the two flags \<open>uglify\<close> and \<open>mangle\<close>, the brand and the sibling
  directory. When one of them fails (the repository is not a string, \<open>uglify\<close> or \<open>mangle\<close>
  is not a boolean, the brand is not one of \<open>BRANDS\<close>, or the brand is \<open>phet-io\<close> and the
  directory \<open>../phet-io\<close> does not exist), or when the table of the fallback locale has no
  entry for the title key, the build ends with an exception and has written nothing: no
  directory is created and no file is written.
\<close>

theorem abort_before_any_write:
  assumes "typeof repo' \<noteq> ''string'' \<or> typeof uglify \<noteq> ''boolean'' \<or> typeof mangle' \<noteq> ''boolean''
           \<or> \<not> includes_value (BRANDS w) brand'
           \<or> (brand' = JSString ''phet-io'' \<and> \<not> file_exists w ''../phet-io'')
           \<or> (repo' = JSString r \<and> brand' = JSString b
               \<and> getStringMap w (FALLBACK_LOCALE w # getLocalesFromRepository w r) (getPhetLibs w r b)
                    (FALLBACK_LOCALE w) = Some table
               \<and> table (getTitleStringKey w r) = None)"
  shows "\<exists>e. buildRunnable w repo' uglify mangle' instrument allHTML' brand' localesOption = ([], Some e)"
proof (cases "buildRunnable_values w repo' uglify mangle' instrument allHTML' brand' localesOption")
  case (Inl e)
  then show ?thesis by (simp add: buildRunnable_def)
next
  case (Inr v)
  note d = buildRunnable_values_InrD [OF Inr] and t = buildRunnable_values_title [OF Inr]
  from d(1) have "typeof repo' = ''string''" by (simp add: typeof_string)
  moreover note d(3) d(4) t(3)
  moreover have "\<not> (brand' = JSString ''phet-io'' \<and> \<not> file_exists w ''../phet-io'')"
    using d(2) t(2) by auto
  moreover have "\<not> (repo' = JSString r \<and> brand' = JSString b
               \<and> getStringMap w (FALLBACK_LOCALE w # getLocalesFromRepository w r) (getPhetLibs w r b)
                    (FALLBACK_LOCALE w) = Some table
               \<and> table (getTitleStringKey w r) = None)"
    using d(1) d(2) t(1) by (auto simp: englishTitle_of_def split: option.splits)
  ultimately show ?thesis using assms by blast
qed

theorem abort_before_any_write_witness:
  "(\<exists>e. buildRunnable no_sibling_world (JSString ''demo'') (JSBool True)
          (JSBool True) (JSBool False) (JSBool True) (JSString ''phet-io'') (JSString ''*'') = ([], Some e))
   \<and> (\<exists>e. buildRunnable untitled_world (JSString ''demo'') (JSBool False)
          (JSBool True) (JSBool False) (JSBool True) (JSString ''phet'') (JSString ''*'') = ([], Some e))"
proof
  show "\<exists>e. buildRunnable no_sibling_world (JSString ''demo'') (JSBool True)
          (JSBool True) (JSBool False) (JSBool True) (JSString ''phet-io'') (JSString ''*'') = ([], Some e)"
    by (rule abort_before_any_write) (simp add: no_sibling_world_def)
  show "\<exists>e. buildRunnable untitled_world (JSString ''demo'') (JSBool False)
          (JSBool True) (JSBool False) (JSBool True) (JSString ''phet'') (JSString ''*'') = ([], Some e)"
    by (rule abort_before_any_write [where r = "''demo''" and b = "''phet''" and table = "\<lambda>key. None"])
       (simp add: untitled_world_def demo_world_def)
qed

text \<open>
  C4, as the claim states it, fails for the two other flags. The types of \<open>instrument\<close>
  and \<open>allHTML\<close> are not asserted: a build whose \<open>instrument\<close> is \<open>undefined\<close> and whose
  \<open>allHTML\<close> is the string \<open>false\<close> ends without an exception and writes its files.
\<close>

theorem unchecked_flags_build_proceeds:
  "typeof JSUndefined \<noteq> ''boolean''
   \<and> typeof (JSString ''false'') \<noteq> ''boolean''
   \<and> snd (buildRunnable demo_world (JSString ''demo'') (JSBool False) (JSBool False) JSUndefined
              (JSString ''false'') (JSString ''phet'') (JSString ''en'')) = None
   \<and> fst (buildRunnable demo_world (JSString ''demo'') (JSBool False) (JSBool False) JSUndefined
              (JSString ''false'') (JSString ''phet'') (JSString ''en'')) \<noteq> []"
proof -
  have "\<exists>v. buildRunnable_values demo_world (JSString ''demo'') (JSBool False) (JSBool False)
              JSUndefined (JSString ''false'') (JSString ''phet'') (JSString ''en'') = Inr v"
    by (simp add: demo_defs)
  then obtain v where "buildRunnable_values demo_world (JSString ''demo'') (JSBool False)
      (JSBool False) JSUndefined (JSString ''false'') (JSString ''phet'') (JSString ''en'') = Inr v" ..
  then have "buildRunnable demo_world (JSString ''demo'') (JSBool False) (JSBool False) JSUndefined
      (JSString ''false'') (JSString ''phet'') (JSString ''en'') = (buildRunnable_writes demo_world v, None)"
    by (rule buildRunnable_Inr)
  then show ?thesis
    by (simp add: buildRunnable_writes_def)
qed

section \<open>The clock\<close>

lemma clock_helpers:
  "requireJS_of (w\<lparr> Date_toISOString := d, template_today := t \<rparr>) = requireJS_of w"
  "rawPreloads_of (w\<lparr> Date_toISOString := d, template_today := t \<rparr>) = rawPreloads_of w"
  "productionJS_of (w\<lparr> Date_toISOString := d, template_today := t \<rparr>) = productionJS_of w"
  "debugJS_of (w\<lparr> Date_toISOString := d, template_today := t \<rparr>) = debugJS_of w"
  "productionPreloads_of (w\<lparr> Date_toISOString := d, template_today := t \<rparr>) = productionPreloads_of w"
  "debugPreloads_of (w\<lparr> Date_toISOString := d, template_today := t \<rparr>) = debugPreloads_of w"
  "t ''yyyy'' = template_today w ''yyyy'' \<Longrightarrow>
     htmlHeader_of (w\<lparr> Date_toISOString := d, template_today := t \<rparr>) = htmlHeader_of w"
  by (simp_all add: fun_eq_iff requireJS_of_def rawPreloads_of_def productionJS_of_def
      debugJS_of_def productionPreloads_of_def debugPreloads_of_def htmlHeader_of_def cong: if_cong)

lemma clock_values:
  assumes "timestamp_of d = timestamp_of (Date_toISOString w)"
    and "t ''yyyy'' = template_today w ''yyyy''"
  shows "buildRunnable_values (w\<lparr> Date_toISOString := d, template_today := t \<rparr>)
           repo' uglify mangle' instrument allHTML' brand' localesOption =
         buildRunnable_values w repo' uglify mangle' instrument allHTML' brand' localesOption"
  using assms
  by (simp add: buildRunnable_values_def Let_def clock_helpers cong: sum.case_cong)

lemma clock_writes:
  "buildRunnable_writes (w\<lparr> Date_toISOString := d, template_today := t \<rparr>) v = buildRunnable_writes w v"
  by (simp add: buildRunnable_writes_def locale_html_def locale_html_args_def all_html_def
      all_html_args_def debug_html_def debug_html_args_def xhtml_build_def xhtml_build_args_def
      dependencies_json_def iframe_html_def a11y_view_def supplemental_phetio_files_def thumbnails_def)

text \<open>
  C10, as the code has it. The clock is read twice: \<open>new Date()\<close> gives the build
  timestamp, cut at the seconds, and \<open>grunt.template.today('yyyy')\<close> gives the year of the
  copyright line of the header. Two runs on the same request and the same collaborators
  whose clocks give the same timestamp and the same year have the same effects and the
  same outcome; in particular two runs with a frozen clock.
\<close>

theorem clock_only_through_timestamp_and_year:
  assumes "timestamp_of d = timestamp_of (Date_toISOString w)"
    and "t ''yyyy'' = template_today w ''yyyy''"
  shows "buildRunnable (w\<lparr> Date_toISOString := d, template_today := t \<rparr>)
           repo' uglify mangle' instrument allHTML' brand' localesOption =
         buildRunnable w repo' uglify mangle' instrument allHTML' brand' localesOption"
  using clock_values [where w = w and d = d and t = t, OF assms]
  by (simp add: buildRunnable_def clock_writes cong: sum.case_cong)

theorem clock_only_through_timestamp_and_year_witness:
  "buildRunnable (demo_world\<lparr> Date_toISOString := later_iso, template_today := later_today \<rparr>)
     (JSString ''demo'') (JSBool True) (JSBool True) (JSBool False) (JSBool True) (JSString ''phet'') (JSString ''*'')
   = buildRunnable demo_world
     (JSString ''demo'') (JSBool True) (JSBool True) (JSBool False) (JSBool True) (JSString ''phet'') (JSString ''*'')"
proof -
  have 1: "timestamp_of later_iso = timestamp_of (Date_toISOString demo_world)"
    by (simp add: later_iso_def demo_world_def timestamp_of_def js_substring_def)
  have 2: "later_today ''yyyy'' = template_today demo_world ''yyyy''"
    by (simp add: later_today_def demo_world_def)
  show ?thesis
    by (rule clock_only_through_timestamp_and_year
          [where w = demo_world and d = later_iso and t = later_today, OF 1 2])
qed

text \<open>
  C10, as the claim states it, fails: two runs whose clocks give the same timestamp and
  differ in the year write different files, since the year stands in the header of every
  HTML file.
\<close>

theorem year_differs_with_equal_timestamp:
  "timestamp_of (Date_toISOString new_year_world) = timestamp_of (Date_toISOString demo_world)
   \<and> buildRunnable new_year_world
       (JSString ''demo'') (JSBool False) (JSBool False) (JSBool False) (JSBool False) (JSString ''phet'') (JSString ''en'')
     \<noteq> buildRunnable demo_world
       (JSString ''demo'') (JSBool False) (JSBool False) (JSBool False) (JSBool False) (JSString ''phet'') (JSString ''en'')"
  by (simp add: new_year_world_def buildRunnable_def demo_defs buildRunnable_writes_def
      locale_html_def locale_html_args_def debug_html_def debug_html_args_def htmlHeader_of_def
      buildDir_def initializationOptions_def)

end
